theory Spec2Isabelle
  imports Main
begin

section \<open>JavaScript values of type \<open>number\<close>\<close>

text \<open>
  The fields and results the model talks about are declared \<open>number\<close> in the TypeScript
  source. Without strict null checks that type is inhabited by \<open>undefined\<close>, \<open>null\<close>, \<open>NaN\<close>
  and the ordinary numbers. The code never looks inside an ordinary number (it only tests
  \<open>typeof\<close>, \<open>== null\<close> and \<open>isNaN\<close>), so the ordinary numbers are a type parameter \<open>'n\<close>.
\<close>

datatype 'n jsnumber = NaN | NumVal 'n

datatype 'n jsvalue = Undefined | Null | Number "'n jsnumber"

text \<open>\<open>typeof(v) === 'undefined'\<close>\<close>

fun typeof_undefined :: "'n jsvalue \<Rightarrow> bool" where
  "typeof_undefined Undefined = True"
| "typeof_undefined Null = False"
| "typeof_undefined (Number n) = False"

text \<open>\<open>v == null\<close> (loose equality: true for \<open>null\<close> and for \<open>undefined\<close>)\<close>

fun loose_eq_null :: "'n jsvalue \<Rightarrow> bool" where
  "loose_eq_null Undefined = True"
| "loose_eq_null Null = True"
| "loose_eq_null (Number n) = False"

text \<open>
  The global \<open>isNaN(v)\<close> converts its argument to a number first: \<open>undefined\<close> becomes
  \<open>NaN\<close>, \<open>null\<close> becomes \<open>0\<close>.
\<close>

fun isNaN :: "'n jsvalue \<Rightarrow> bool" where
  "isNaN Undefined = True"
| "isNaN Null = False"
| "isNaN (Number NaN) = True"
| "isNaN (Number (NumVal n)) = False"

text \<open>Truthiness of an optional string (\<open>if (desc.numberFormat)\<close>): present and not empty.\<close>

fun truthy_string :: "string option \<Rightarrow> bool" where
  "truthy_string None = False"
| "truthy_string (Some s) = (s \<noteq> [])"

text \<open>An ordinary number: a number that is not \<open>NaN\<close>.\<close>

fun ordinary :: "'n jsvalue \<Rightarrow> bool" where
  "ordinary (Number (NumVal n)) = True"
| "ordinary v = False"


section \<open>CompositeNumberColumn\<close>

text \<open>
  \<open>ICompositeNumberDesc\<close>: the two optional fields the constructor reads. An absent
  \<open>numberFormat\<close> is \<open>None\<close>, an absent \<open>missingValue\<close> is \<open>Undefined\<close>.
\<close>

record 'n ICompositeNumberDesc =
  desc_numberFormat :: "string option"
  desc_missingValue :: "'n jsvalue"

text \<open>
  Modelled from the spec: the inherited state of Column and CompositeColumn, whose classes
  are not among the sources: identifier, descriptor, width, the compressed, filtered and
  collapsed flags, the loaded flag read by \<open>isLoaded()\<close>, and the ordered children.
\<close>

record ('c, 'n) CompositeColumn =
  col_id :: string
  desc :: "'n ICompositeNumberDesc"
  width :: int
  compressed :: bool
  filtered :: bool
  collapsed :: bool
  loaded :: bool
  children :: "'c list"

text \<open>
  The class itself adds \<open>missingValue\<close> and \<open>numberFormat\<close>. The field \<open>numberFormat\<close> of the
  source holds \<open>format(spec)\<close>, the formatter that the external library d3 compiles from a
  format specifier; the model keeps the specifier and applies the library function
  \<open>format\<close>, a parameter, where the source calls the formatter.
\<close>

record ('c, 'n) CompositeNumberColumn = "('c, 'n) CompositeColumn" +
  missingValue :: "'n jsvalue"
  numberFormat :: string

text \<open>
  Modelled from the spec: \<open>isLoaded()\<close> of Column reads the loaded flag.
\<close>

definition isLoaded :: "('c, 'n) CompositeNumberColumn \<Rightarrow> bool" where
  "isLoaded this = loaded this"

text \<open>
  The constructor. Its argument \<open>super\<close> is the object as \<open>super(id, desc)\<close> leaves it; the
  field initialisers (\<open>missingValue = 0\<close>, \<open>numberFormat = format('.3n')\<close>) run first, then
  the body.
\<close>

definition new_CompositeNumberColumn ::
  "('c, 'n::zero) CompositeColumn \<Rightarrow> 'n ICompositeNumberDesc \<Rightarrow> ('c, 'n) CompositeNumberColumn" where
  "new_CompositeNumberColumn super d =
     (let this0 = \<lparr>col_id = col_id super, desc = desc super, width = width super,
                    compressed = compressed super, filtered = filtered super,
                    collapsed = collapsed super, loaded = loaded super,
                    children = children super,
                    missingValue = Number (NumVal 0), numberFormat = ''.3n''\<rparr>;
          this1 = (if truthy_string (desc_numberFormat d)
                   then this0\<lparr>numberFormat := the (desc_numberFormat d)\<rparr> else this0);
          this2 = (if desc_missingValue d \<noteq> Undefined
                   then this1\<lparr>missingValue := desc_missingValue d\<rparr> else this1)
      in this2)"

text \<open>The method \<open>compute\<close> of the class itself: it returns \<open>NaN\<close>. Subclasses override it.\<close>

definition compute :: "'row \<Rightarrow> int \<Rightarrow> 'n jsvalue" where
  "compute row index = Number NaN"

text \<open>
  \<open>getValue\<close>. The call \<open>this.compute(row, index)\<close> is dispatched on the object, so the
  reduction is the parameter \<open>cmp\<close>; for the class itself it is \<open>compute\<close>.
\<close>

definition getValue ::
  "('row \<Rightarrow> int \<Rightarrow> 'n jsvalue) \<Rightarrow> ('c, 'n) CompositeNumberColumn \<Rightarrow> 'row \<Rightarrow> int \<Rightarrow> 'n jsvalue" where
  "getValue cmp this row index =
     (if \<not> isLoaded this then Null
      else let v = cmp row index
           in if typeof_undefined v \<or> loose_eq_null v \<or> isNaN v then missingValue this else v)"

definition getNumber ::
  "('row \<Rightarrow> int \<Rightarrow> 'n jsvalue) \<Rightarrow> ('c, 'n) CompositeNumberColumn \<Rightarrow> 'row \<Rightarrow> int \<Rightarrow> 'n jsvalue" where
  "getNumber cmp this row index = getValue cmp this row index"

definition getRawNumber ::
  "('row \<Rightarrow> int \<Rightarrow> 'n jsvalue) \<Rightarrow> ('c, 'n) CompositeNumberColumn \<Rightarrow> 'row \<Rightarrow> int \<Rightarrow> 'n jsvalue" where
  "getRawNumber cmp this row index = getNumber cmp this row index"

text \<open>
  \<open>getLabel\<close>; \<open>format\<close> is d3's \<open>format\<close>, from a specifier to a formatter of numbers.
  The result is \<open>'' + (typeof v === 'number' ? this.numberFormat(v) : v)\<close>: a formatted
  number is a string already, and \<open>'' + null\<close> and \<open>'' + undefined\<close> are the words.
\<close>

definition getLabel ::
  "(string \<Rightarrow> 'n jsnumber \<Rightarrow> string) \<Rightarrow> ('row \<Rightarrow> int \<Rightarrow> 'n jsvalue) \<Rightarrow>
   ('c, 'n) CompositeNumberColumn \<Rightarrow> 'row \<Rightarrow> int \<Rightarrow> string" where
  "getLabel format cmp this row index =
     (if \<not> isLoaded this then ''''
      else let v = getValue cmp this row index
           in (case v of Number n \<Rightarrow> format (numberFormat this) n
                       | Null \<Rightarrow> ''null''
                       | Undefined \<Rightarrow> ''undefined''))"

text \<open>
  \<open>compare\<close>; \<open>numberCompare\<close> is imported from NumberColumn, which is not among the
  sources, and is a parameter.
\<close>

definition compare ::
  "('n jsvalue \<Rightarrow> 'n jsvalue \<Rightarrow> 'r) \<Rightarrow> ('row \<Rightarrow> int \<Rightarrow> 'n jsvalue) \<Rightarrow>
   ('c, 'n) CompositeNumberColumn \<Rightarrow> 'row \<Rightarrow> 'row \<Rightarrow> int \<Rightarrow> int \<Rightarrow> 'r" where
  "compare numberCompare cmp this a b aIndex bIndex =
     numberCompare (getValue cmp this a aIndex) (getValue cmp this b bIndex)"



text \<open>
  What the spec asks of the comparator, on the values \<open>P\<close>: of two values one is at most
  the other (the result is not positive one way round), and the order is transitive.
\<close>

definition total_preorder_on :: "('v \<Rightarrow> bool) \<Rightarrow> ('v \<Rightarrow> 'v \<Rightarrow> 'r::{zero,ord}) \<Rightarrow> bool" where
  "total_preorder_on P nc =
     (\<forall>x y z. P x \<and> P y \<and> P z \<longrightarrow>
        (nc x y \<le> 0 \<or> nc y x \<le> 0) \<and> (nc x y \<le> 0 \<and> nc y z \<le> 0 \<longrightarrow> nc x z \<le> 0))"

subsection \<open>dump and restore\<close>

text \<open>
  The plain record that \<open>dump\<close> returns and \<open>restore\<close> reads. A field that is absent from
  the JavaScript object is \<open>Undefined\<close> (\<open>missingValue\<close>) or \<open>None\<close> (\<open>numberFormat\<close>).
  The children are dumped by their own \<open>dump\<close> methods, into records of type \<open>'cd\<close>;
  \<open>'ref\<close> is the type of descriptor references.
\<close>

record ('cd, 'ref, 'n) dump_record =
  r_id :: string
  r_desc :: 'ref
  r_width :: int
  r_compressed :: bool
  r_filtered :: bool
  r_collapsed :: bool
  r_children :: "'cd list"
  r_missingValue :: "'n jsvalue"
  r_numberFormat :: "string option"

text \<open>
  Modelled from the spec: the inherited \<open>dump\<close> of Column and CompositeColumn (reached by
  \<open>super.dump(toDescRef)\<close>), not among the sources. It writes the identifier, the type tag
  (the descriptor, through \<open>toDescRef\<close>), the width, the compressed, filtered and collapsed
  flags and the child dumps in order. The fields of the subclass are not its business.
\<close>

definition Column_dump ::
  "('n ICompositeNumberDesc \<Rightarrow> 'ref) \<Rightarrow> ('c \<Rightarrow> 'cd) \<Rightarrow> ('c, 'n) CompositeNumberColumn \<Rightarrow>
   ('cd, 'ref, 'n) dump_record" where
  "Column_dump toDescRef child_dump this =
     \<lparr>r_id = col_id this, r_desc = toDescRef (desc this), r_width = width this,
      r_compressed = compressed this, r_filtered = filtered this, r_collapsed = collapsed this,
      r_children = map child_dump (children this),
      r_missingValue = Undefined, r_numberFormat = None\<rparr>"

text \<open>
  Modelled from the spec: the inherited \<open>restore\<close> (reached by \<open>super.restore(dump, factory)\<close>),
  not among the sources. It takes the width and the flags from the record and restores the
  children, in order, through the injected factory.
\<close>

definition Column_restore ::
  "('cd, 'ref, 'n) dump_record \<Rightarrow> ('cd \<Rightarrow> 'c) \<Rightarrow> ('c, 'n) CompositeNumberColumn \<Rightarrow>
   ('c, 'n) CompositeNumberColumn" where
  "Column_restore d factory this =
     this\<lparr>width := r_width d, compressed := r_compressed d, filtered := r_filtered d,
          collapsed := r_collapsed d, children := map factory (r_children d)\<rparr>"

text \<open>\<open>dump\<close> of CompositeNumberColumn: the inherited record, with \<open>missingValue\<close> set.\<close>

definition dump ::
  "('n ICompositeNumberDesc \<Rightarrow> 'ref) \<Rightarrow> ('c \<Rightarrow> 'cd) \<Rightarrow> ('c, 'n) CompositeNumberColumn \<Rightarrow>
   ('cd, 'ref, 'n) dump_record" where
  "dump toDescRef child_dump this =
     (let r = Column_dump toDescRef child_dump this
      in r\<lparr>r_missingValue := missingValue this\<rparr>)"

text \<open>\<open>restore\<close> of CompositeNumberColumn.\<close>

definition restore ::
  "('cd, 'ref, 'n) dump_record \<Rightarrow> ('cd \<Rightarrow> 'c) \<Rightarrow> ('c, 'n) CompositeNumberColumn \<Rightarrow>
   ('c, 'n) CompositeNumberColumn" where
  "restore d factory this =
     (let this1 = (if r_missingValue d \<noteq> Undefined
                   then this\<lparr>missingValue := r_missingValue d\<rparr> else this);
          this2 = (if truthy_string (r_numberFormat d)
                   then this1\<lparr>numberFormat := the (r_numberFormat d)\<rparr> else this1)
      in Column_restore d factory this2)"


section \<open>HeaderRenderer: countMultiLevel\<close>

text \<open>
  What \<open>countMultiLevel\<close> reads of a column: whether it is a multi-level column
  (\<open>isMultiLevelColumn\<close>, imported from CompositeColumn and not among the sources, so a tag
  of the column here), its collapsed and compressed flags, and its children.
\<close>

datatype Column =
  Column (isMultiLevelColumn: bool) (getCollapsed: bool) (getCompressed: bool)
         (ml_children: "Column list")

text \<open>
  The numbers \<open>countMultiLevel\<close> computes with: integers and \<open>-Infinity\<close>, which is what
  \<open>Math.max\<close> returns when it is applied to no arguments.
\<close>

datatype jsdepth = NegInfinity | Finite int

fun js_add :: "jsdepth \<Rightarrow> jsdepth \<Rightarrow> jsdepth" where
  "js_add (Finite a) (Finite b) = Finite (a + b)"
| "js_add NegInfinity b = NegInfinity"
| "js_add a NegInfinity = NegInfinity"

fun js_le :: "jsdepth \<Rightarrow> jsdepth \<Rightarrow> bool" where
  "js_le NegInfinity b = True"
| "js_le (Finite a) NegInfinity = False"
| "js_le (Finite a) (Finite b) = (a \<le> b)"

definition js_max2 :: "jsdepth \<Rightarrow> jsdepth \<Rightarrow> jsdepth" where
  "js_max2 a b = (if js_le a b then b else a)"

text \<open>\<open>Math.max.apply(Math, xs)\<close>: the largest of the arguments, from \<open>-Infinity\<close>.\<close>

definition Math_max :: "jsdepth list \<Rightarrow> jsdepth" where
  "Math_max xs = foldl js_max2 NegInfinity xs"

fun countMultiLevel :: "Column \<Rightarrow> jsdepth" where
  "countMultiLevel (Column multi coll compr cs) =
     (if multi \<and> \<not> coll \<and> \<not> compr
      then js_add (Finite 1) (Math_max (map countMultiLevel cs))
      else Finite 1)"


section \<open>HeaderRenderer: the statistics cache\<close>

















section \<open>LineUp.sortBy\<close>

text \<open>
  What \<open>this.data.find(column)\<close> may return: a column, \<open>null\<close> or \<open>undefined\<close>. The source
  tests the result twice, once for truthiness (\<open>if (col)\<close>) and once against \<open>null\<close>
  (\<open>col !== null\<close>).
\<close>

datatype 'c jsref = RefNull | RefUndefined | RefObject 'c

text \<open>
  \<open>find\<close> of the data provider and \<open>sortByMe\<close> of Column are not among the sources and are
  parameters (\<open>data_find\<close>, \<open>sortByMe\<close>): \<open>find\<close> reads the provider's state \<open>'s\<close>, \<open>sortByMe\<close> changes it. The optional
  argument \<open>ascending\<close> defaults to \<open>false\<close>. The result is the returned boolean and the
  state afterwards.
\<close>

definition sortBy ::
  "('s \<Rightarrow> 'sel \<Rightarrow> 'c jsref) \<Rightarrow> ('c \<Rightarrow> bool \<Rightarrow> 's \<Rightarrow> 's) \<Rightarrow> 'sel \<Rightarrow> bool option \<Rightarrow> 's \<Rightarrow> bool \<times> 's" where
  "sortBy data_find sortByMe column ascending s =
     (let asc = (case ascending of None \<Rightarrow> False | Some a \<Rightarrow> a);
          col = data_find s column;
          s' = (case col of RefObject c \<Rightarrow> sortByMe c asc s | _ \<Rightarrow> s)
      in (col \<noteq> RefNull, s'))"


section \<open>Concrete columns, rankings and providers\<close>

text \<open>
  Descriptors: one that configures nothing, one with the substitute 7, one with the
  substitute \<open>NaN\<close>, and one with the format \<open>.1f\<close> and the substitute \<open>null\<close>.
\<close>

definition desc_plain :: "int ICompositeNumberDesc" where
  "desc_plain = \<lparr>desc_numberFormat = None, desc_missingValue = Undefined\<rparr>"

definition desc_seven :: "int ICompositeNumberDesc" where
  "desc_seven = \<lparr>desc_numberFormat = None, desc_missingValue = Number (NumVal 7)\<rparr>"

definition desc_NaN :: "int ICompositeNumberDesc" where
  "desc_NaN = \<lparr>desc_numberFormat = None, desc_missingValue = Number NaN\<rparr>"

definition desc_fixed :: "int ICompositeNumberDesc" where
  "desc_fixed = \<lparr>desc_numberFormat = Some ''.1f'', desc_missingValue = Null\<rparr>"

text \<open>
  A loaded composite without children, as the inherited constructor leaves it for the
  descriptor \<open>d\<close>, and the column that \<open>new CompositeNumberColumn('c1', d)\<close> then is.
\<close>

definition example_super :: "int ICompositeNumberDesc \<Rightarrow> (unit, int) CompositeColumn" where
  "example_super d =
     \<lparr>col_id = ''c1'', desc = d, width = 100, compressed = False, filtered = False,
      collapsed = False, loaded = True, children = []\<rparr>"

definition example_new :: "int ICompositeNumberDesc \<Rightarrow> (unit, int) CompositeNumberColumn" where
  "example_new d = new_CompositeNumberColumn (example_super d) d"

text \<open>The same for a lazily loaded column: the loaded flag is not set yet.\<close>

definition example_lazy :: "int ICompositeNumberDesc \<Rightarrow> (unit, int) CompositeNumberColumn" where
  "example_lazy d = new_CompositeNumberColumn ((example_super d)\<lparr>loaded := False\<rparr>) d"

text \<open>A reduction of a subclass: the row is the value.\<close>

definition row_value :: "'n jsvalue \<Rightarrow> int \<Rightarrow> 'n jsvalue" where
  "row_value row index = row"

text \<open>A comparator: the difference of two ordinary numbers.\<close>

fun difference :: "int jsvalue \<Rightarrow> int jsvalue \<Rightarrow> int" where
  "difference (Number (NumVal a)) (Number (NumVal b)) = a - b"
| "difference a b = 0"

text \<open>A formatter that shows which specifier it was compiled from.\<close>

fun specifier_format :: "string \<Rightarrow> int jsnumber \<Rightarrow> string" where
  "specifier_format spec NaN = ''NaN''"
| "specifier_format spec (NumVal n) = spec"

text \<open>
  A dump record that carries a number format, and the column that results from restoring
  it into a fresh column whose descriptor configures nothing.
\<close>

definition example_record :: "(unit, unit, int) dump_record" where
  "example_record =
     \<lparr>r_id = ''c1'', r_desc = (), r_width = 100, r_compressed = False, r_filtered = False,
      r_collapsed = False, r_children = [], r_missingValue = Undefined,
      r_numberFormat = Some ''.1f''\<rparr>"

definition example_column :: "(unit, int) CompositeNumberColumn" where
  "example_column =
     restore example_record (\<lambda>d. ())
       (example_new desc_plain)"

text \<open>A column tree of three levels, with a collapsed and a compressed composite in it.\<close>

definition leaf :: Column where
  "leaf = Column False False False []"

definition example_tree :: Column where
  "example_tree =
     Column True False False
       [leaf,
        Column True True False [Column True False False [leaf]],
        Column True False False [leaf, Column True False True [Column True False False [leaf]]]]"









section \<open>Properties of CompositeNumberColumn\<close>

lemma substituted_iff:
  "(typeof_undefined v \<or> loose_eq_null v \<or> isNaN v) =
   (v = Undefined \<or> v = Null \<or> v = Number NaN)"
proof (cases v)
  case (Number n)
  then show ?thesis by (cases n) simp_all
qed simp_all

lemma ordinary_iff: "ordinary v = (\<exists>n. v = Number (NumVal n))"
  by (cases v rule: ordinary.cases) simp_all

lemma example_loaded: "isLoaded (example_new d)"
  by (simp add: isLoaded_def example_new_def new_CompositeNumberColumn_def example_super_def
      Let_def)

lemma example_missingValue:
  "missingValue (example_new desc_plain) = Number (NumVal 0)"
  "missingValue (example_new desc_seven) = Number (NumVal 7)"
  "missingValue (example_new desc_NaN) = Number NaN"
  "missingValue (example_new desc_fixed) = Null"
  by (simp_all add: example_new_def new_CompositeNumberColumn_def desc_plain_def
      desc_seven_def desc_NaN_def desc_fixed_def)

text \<open>
  C10. For every column, row and index, \<open>getNumber\<close> and \<open>getRawNumber\<close> return exactly what
  \<open>getValue\<close> returns.
\<close>

theorem getNumber_getRawNumber_getValue:
  "getNumber cmp this row index = getValue cmp this row index \<and>
   getRawNumber cmp this row index = getValue cmp this row index"
  by (simp add: getNumber_def getRawNumber_def)

text \<open>
  C2. On a loaded column, \<open>getValue\<close> returns the column's missing-value substitute when
  the reduction yields \<open>undefined\<close>, \<open>null\<close> or \<open>NaN\<close>, and the computed number unchanged
  otherwise. The reduction of the class itself always yields \<open>NaN\<close>, so there the substitute
  is returned whatever the children are. The substitute is \<open>0\<close> unless the descriptor gives
  one.
\<close>

theorem getValue_missing_value_substitute:
  assumes "isLoaded this"
  shows "getValue cmp this row index =
           (if cmp row index = Undefined \<or> cmp row index = Null \<or> cmp row index = Number NaN
            then missingValue this else cmp row index) \<and>
         getValue compute this row index = missingValue this \<and>
         missingValue (new_CompositeNumberColumn super d) =
           (if desc_missingValue d = Undefined then Number (NumVal 0) else desc_missingValue d)"
  using assms
  by (simp add: getValue_def substituted_iff compute_def new_CompositeNumberColumn_def Let_def)

theorem getValue_missing_value_substitute_witness:
  "isLoaded (example_new desc_seven) \<and>
   getValue row_value (example_new desc_seven) (Number NaN) 0 = Number (NumVal 7) \<and>
   getValue row_value (example_new desc_seven) Null 1 = Number (NumVal 7) \<and>
   getValue row_value (example_new desc_seven) (Number (NumVal 3)) 2 = Number (NumVal 3) \<and>
   getValue compute (example_new desc_seven) () 3 = Number (NumVal 7) \<and>
   getValue row_value (example_new desc_plain) Undefined 4 = Number (NumVal 0)"
proof -
  have l7: "isLoaded (example_new desc_seven)" and l0: "isLoaded (example_new desc_plain)"
    by (rule example_loaded)+
  show ?thesis
    using l7
      getValue_missing_value_substitute [OF l7, of row_value "Number NaN" 0
        "example_super desc_seven" desc_seven]
      getValue_missing_value_substitute [OF l7, of row_value Null 1
        "example_super desc_seven" desc_seven]
      getValue_missing_value_substitute [OF l7, of row_value "Number (NumVal 3)" 2
        "example_super desc_seven" desc_seven]
      getValue_missing_value_substitute [OF l7, of compute "()" 3
        "example_super desc_seven" desc_seven]
      getValue_missing_value_substitute [OF l0, of row_value Undefined 4
        "example_super desc_plain" desc_plain]
    by (simp add: row_value_def compute_def example_missingValue)
qed

text \<open>
  C5. On a loaded column, \<open>getLabel\<close> applies the configured number format when \<open>getValue\<close>
  yields a number, and returns the value converted to a string otherwise. The configured
  format is the descriptor's, or \<open>.3n\<close> when the descriptor has none.
\<close>

theorem getLabel_number_format:
  assumes "isLoaded this"
  shows "getLabel format cmp this row index =
           (case getValue cmp this row index of
              Number n \<Rightarrow> format (numberFormat this) n
            | Null \<Rightarrow> ''null''
            | Undefined \<Rightarrow> ''undefined'') \<and>
         numberFormat (new_CompositeNumberColumn super d) =
           (if truthy_string (desc_numberFormat d) then the (desc_numberFormat d) else ''.3n'')"
  using assms by (simp add: getLabel_def new_CompositeNumberColumn_def Let_def)

theorem getLabel_number_format_witness:
  "isLoaded (example_new desc_fixed) \<and>
   getLabel specifier_format row_value (example_new desc_fixed) (Number (NumVal 3)) 0
     = ''.1f'' \<and>
   getLabel specifier_format row_value (example_new desc_fixed) (Number NaN) 1 = ''null'' \<and>
   getLabel specifier_format row_value (example_new desc_plain) (Number (NumVal 3)) 2
     = ''.3n''"
proof -
  have l: "isLoaded (example_new desc_fixed)" and l0: "isLoaded (example_new desc_plain)"
    by (rule example_loaded)+
  have v: "getValue row_value (example_new desc_fixed) (Number (NumVal 3)) 0
             = Number (NumVal 3)"
          "getValue row_value (example_new desc_fixed) (Number NaN) 1 = Null"
          "getValue row_value (example_new desc_plain) (Number (NumVal 3)) 2
             = Number (NumVal 3)"
    using l l0 by (simp_all add: getValue_def row_value_def example_missingValue)
  have f: "numberFormat (example_new desc_fixed) = ''.1f''"
          "numberFormat (example_new desc_plain) = ''.3n''"
    by (simp_all add: example_new_def new_CompositeNumberColumn_def desc_fixed_def
        desc_plain_def)
  show ?thesis
    using l v f
      getLabel_number_format [OF l, of specifier_format row_value "Number (NumVal 3)" 0
        "example_super desc_fixed" desc_fixed]
      getLabel_number_format [OF l, of specifier_format row_value "Number NaN" 1
        "example_super desc_fixed" desc_fixed]
      getLabel_number_format [OF l0, of specifier_format row_value "Number (NumVal 3)" 2
        "example_super desc_plain" desc_plain]
    by simp
qed

text \<open>
  C6. While the loaded flag of a column is not set, \<open>getValue\<close> returns \<open>null\<close>, whatever
  the reduction would yield, and \<open>getLabel\<close> returns the empty string, for every row.
\<close>

theorem not_loaded_placeholder:
  assumes "\<not> isLoaded this"
  shows "getValue cmp this row index = Null \<and> getLabel format cmp this row index = ''''"
  using assms by (simp add: getValue_def getLabel_def)

theorem not_loaded_placeholder_witness:
  "\<not> isLoaded (example_lazy desc_seven) \<and>
   getValue row_value (example_lazy desc_seven) (Number (NumVal 3)) 0 = Null \<and>
   getLabel specifier_format row_value (example_lazy desc_seven) (Number (NumVal 3)) 0 = ''''"
proof -
  have l: "\<not> isLoaded (example_lazy desc_seven)"
    by (simp add: isLoaded_def example_lazy_def new_CompositeNumberColumn_def
        example_super_def Let_def)
  show ?thesis
    using l not_loaded_placeholder [OF l, of row_value "Number (NumVal 3)" 0 specifier_format]
    by simp
qed

text \<open>
  C4, as the claim states it, fails: the substitute is what the descriptor says, and a
  descriptor may say \<open>NaN\<close>. The comparator \<open>Pair\<close> returns its two arguments, so the result
  shows what reaches the comparator: \<open>NaN\<close>, twice.
\<close>

theorem compare_receives_NaN:
  "compare Pair compute (example_new desc_NaN) () () 0 1 = (Number NaN, Number NaN)"
  by (simp add: compare_def getValue_def compute_def example_loaded example_missingValue)

lemma getValue_ordinary:
  assumes "isLoaded this" and "ordinary (missingValue this)"
  shows "ordinary (getValue cmp this row index)"
proof (cases "cmp row index = Undefined \<or> cmp row index = Null \<or> cmp row index = Number NaN")
  case True
  with assms show ?thesis by (simp add: getValue_def substituted_iff)
next
  case False
  then obtain n where "cmp row index = Number (NumVal n)"
    by (cases "cmp row index"; simp) (metis jsnumber.exhaust)
  with assms show ?thesis by (simp add: getValue_def)
qed

lemma difference_total_preorder: "total_preorder_on ordinary difference"
  unfolding total_preorder_on_def
proof (intro allI impI)
  fix x y z :: "int jsvalue"
  assume "ordinary x \<and> ordinary y \<and> ordinary z"
  then obtain a b c where "x = Number (NumVal a)" "y = Number (NumVal b)" "z = Number (NumVal c)"
    by (auto simp: ordinary_iff)
  then show "(difference x y \<le> 0 \<or> difference y x \<le> 0) \<and>
             (difference x y \<le> 0 \<and> difference y z \<le> 0 \<longrightarrow> difference x z \<le> 0)"
    by auto
qed

text \<open>
  C4, amended. \<open>compare\<close> is \<open>numberCompare\<close> applied to the two results of \<open>getValue\<close>. If
  the column is loaded and its missing-value substitute is an ordinary number (a number
  other than \<open>NaN\<close>), then only ordinary numbers reach the comparator, and \<open>compare\<close> orders
  the rows totally and transitively whenever \<open>numberCompare\<close> does so on ordinary numbers.
\<close>

theorem compare_numberCompare_getValue:
  "compare numberCompare cmp this a b aIndex bIndex =
     numberCompare (getValue cmp this a aIndex) (getValue cmp this b bIndex) \<and>
   (isLoaded this \<and> ordinary (missingValue this) \<longrightarrow>
      ordinary (getValue cmp this a aIndex) \<and> ordinary (getValue cmp this b bIndex) \<and>
      (total_preorder_on ordinary numberCompare \<longrightarrow>
         (compare numberCompare cmp this a b aIndex bIndex \<le> 0 \<or>
          compare numberCompare cmp this b a bIndex aIndex \<le> 0) \<and>
         (compare numberCompare cmp this a b aIndex bIndex \<le> 0 \<and>
          compare numberCompare cmp this b c bIndex cIndex \<le> 0 \<longrightarrow>
          compare numberCompare cmp this a c aIndex cIndex \<le> 0)))"
proof (intro conjI impI)
  show "compare numberCompare cmp this a b aIndex bIndex =
          numberCompare (getValue cmp this a aIndex) (getValue cmp this b bIndex)"
    by (simp add: compare_def)
next
  assume h: "isLoaded this \<and> ordinary (missingValue this)"
  then show "ordinary (getValue cmp this a aIndex)" and "ordinary (getValue cmp this b bIndex)"
    by (simp_all add: getValue_ordinary)
next
  assume h: "isLoaded this \<and> ordinary (missingValue this)"
    and t: "total_preorder_on ordinary numberCompare"
  from h have o: "ordinary (getValue cmp this a aIndex)" "ordinary (getValue cmp this b bIndex)"
    by (simp_all add: getValue_ordinary)
  with t show "compare numberCompare cmp this a b aIndex bIndex \<le> 0 \<or>
            compare numberCompare cmp this b a bIndex aIndex \<le> 0"
    unfolding total_preorder_on_def compare_def by blast
next
  assume h: "isLoaded this \<and> ordinary (missingValue this)"
    and t: "total_preorder_on ordinary numberCompare"
    and le: "compare numberCompare cmp this a b aIndex bIndex \<le> 0 \<and>
             compare numberCompare cmp this b c bIndex cIndex \<le> 0"
  from h have "ordinary (getValue cmp this a aIndex)" "ordinary (getValue cmp this b bIndex)"
    "ordinary (getValue cmp this c cIndex)"
    by (simp_all add: getValue_ordinary)
  with t le show "compare numberCompare cmp this a c aIndex cIndex \<le> 0"
    unfolding total_preorder_on_def compare_def by blast
qed

theorem compare_numberCompare_getValue_witness:
  "isLoaded (example_new desc_seven) \<and>
   ordinary (missingValue (example_new desc_seven)) \<and>
   total_preorder_on ordinary difference \<and>
   compare difference row_value (example_new desc_seven)
     (Number (NumVal 2)) (Number NaN) 0 1 = - 5 \<and>
   ordinary (getValue row_value (example_new desc_seven) (Number NaN) 1) \<and>
   compare difference row_value (example_new desc_seven)
     (Number NaN) (Number (NumVal 9)) 1 2 = - 2 \<and>
   compare difference row_value (example_new desc_seven)
     (Number (NumVal 2)) (Number (NumVal 9)) 0 2 \<le> 0"
proof -
  let ?c = "example_new desc_seven"
  have l: "isLoaded ?c"
    by (rule example_loaded)
  have m: "ordinary (missingValue ?c)"
    by (simp add: example_missingValue)
  have v: "getValue row_value ?c (Number (NumVal 2)) 0 = Number (NumVal 2)"
          "getValue row_value ?c (Number NaN) 1 = Number (NumVal 7)"
          "getValue row_value ?c (Number (NumVal 9)) 2 = Number (NumVal 9)"
    using l by (simp_all add: getValue_def row_value_def example_missingValue)
  show ?thesis
    using l m difference_total_preorder v
      compare_numberCompare_getValue [of difference row_value ?c
        "Number (NumVal 2)" "Number NaN" 0 1 "Number (NumVal 9)" 2]
    by (simp add: compare_def)
qed

text \<open>
  C3. The record that \<open>dump\<close> returns has the field \<open>missingValue\<close>, set to the column's
  substitute, and has no field \<open>numberFormat\<close>, whatever the column's number format is.
\<close>

theorem dump_has_no_numberFormat:
  "r_missingValue (dump toDescRef child_dump this) = missingValue this \<and>
   r_numberFormat (dump toDescRef child_dump this) = None"
  by (simp add: dump_def Column_dump_def)

text \<open>
  C1. The column \<open>example_column\<close> has taken the format \<open>.1f\<close> from a record it was restored
  from. Its own dump does not carry the format, so the column restored from that dump, a
  fresh column of the same descriptor, formats with the default \<open>.3n\<close>: the two labels of
  one row come from different formatters.
\<close>

theorem restore_dump_changes_getLabel:
  "getLabel format compute example_column row index = format ''.1f'' (NumVal 0) \<and>
   getLabel format compute
     (restore (dump toDescRef child_dump example_column) factory
        (example_new (desc example_column))) row index
     = format ''.3n'' (NumVal 0)"
  by (simp add: getLabel_def getValue_def compute_def isLoaded_def restore_def dump_def
      Column_dump_def Column_restore_def example_new_def new_CompositeNumberColumn_def
      example_column_def example_record_def example_super_def desc_plain_def)

text \<open>
  What the round trip does preserve: the values (so also the comparisons) of a column
  restored into a column with the same loaded flag, and the children in their order when
  the factory inverts the children's dumps.
\<close>

lemma restore_dump_getValue:
  assumes "missingValue this \<noteq> Undefined" and "loaded that = loaded this"
  shows "getValue cmp (restore (dump toDescRef child_dump this) factory that) row index
           = getValue cmp this row index"
  using assms
  by (simp add: getValue_def isLoaded_def restore_def dump_def Column_dump_def
      Column_restore_def Let_def)

lemma restore_dump_children:
  assumes "\<And>c. c \<in> set (children this) \<Longrightarrow> factory (child_dump c) = c"
  shows "children (restore (dump toDescRef child_dump this) factory that) = children this"
  using assms
  by (simp add: restore_def dump_def Column_dump_def Column_restore_def Let_def map_idI)


section \<open>Properties of countMultiLevel\<close>

lemma js_le_refl: "js_le a a"
  by (cases a) simp_all

lemma js_le_trans: "js_le a b \<Longrightarrow> js_le b c \<Longrightarrow> js_le a c"
  by (cases a; cases b; cases c) simp_all

lemma js_le_total: "js_le a b \<or> js_le b a"
  by (cases a; cases b) auto

lemma foldl_js_max2_ge_init: "js_le a (foldl js_max2 a xs)"
proof (induction xs arbitrary: a)
  case Nil
  show ?case by (simp add: js_le_refl)
next
  case (Cons x xs)
  have "js_le a (js_max2 a x)"
    by (simp add: js_max2_def js_le_refl)
  moreover have "js_le (js_max2 a x) (foldl js_max2 (js_max2 a x) xs)"
    by (rule Cons.IH)
  ultimately show ?case
    by (simp add: js_le_trans [of a "js_max2 a x"])
qed

lemma foldl_js_max2_ge: "x \<in> set xs \<Longrightarrow> js_le x (foldl js_max2 a xs)"
proof (induction xs arbitrary: a)
  case Nil
  then show ?case by simp
next
  case (Cons y ys)
  show ?case
  proof (cases "x = y")
    case True
    have "js_le y (js_max2 a y)"
      using js_le_total [of a y] by (auto simp: js_max2_def js_le_refl)
    moreover have "js_le (js_max2 a y) (foldl js_max2 (js_max2 a y) ys)"
      by (rule foldl_js_max2_ge_init)
    ultimately show ?thesis
      using True by (simp add: js_le_trans [of y "js_max2 a y"])
  next
    case False
    with Cons.prems have "x \<in> set ys" by simp
    then show ?thesis by (simp add: Cons.IH)
  qed
qed

lemma foldl_js_max2_in: "foldl js_max2 a xs = a \<or> foldl js_max2 a xs \<in> set xs"
proof (induction xs arbitrary: a)
  case Nil
  show ?case by simp
next
  case (Cons y ys)
  from Cons.IH [of "js_max2 a y"] show ?case
    by (auto simp: js_max2_def split: if_splits)
qed

lemma Math_max_Nil: "Math_max [] = NegInfinity"
  by (simp add: Math_max_def)

lemma Math_max_ge: "x \<in> set xs \<Longrightarrow> js_le x (Math_max xs)"
  by (simp add: Math_max_def foldl_js_max2_ge)

lemma Math_max_in:
  assumes "xs \<noteq> []"
  shows "Math_max xs \<in> set xs"
proof (cases "foldl js_max2 NegInfinity xs = NegInfinity")
  case True
  from assms obtain x where x: "x \<in> set xs" by (cases xs) auto
  then have "js_le x NegInfinity"
    using foldl_js_max2_ge [of x xs NegInfinity] True by simp
  then have "x = NegInfinity" by (cases x) simp_all
  with x True show ?thesis by (simp add: Math_max_def)
next
  case False
  with foldl_js_max2_in [of NegInfinity xs] show ?thesis by (simp add: Math_max_def)
qed

text \<open>
  C7. \<open>countMultiLevel\<close> returns 1 for a column that is not a multi-level column, and for
  a multi-level column that is collapsed or compressed, whatever its children are; for an
  expanded multi-level column it returns 1 plus \<open>Math.max\<close> of the counts of its children.
  That \<open>Math.max\<close> is the maximum: it is at least the count of every child and, when there
  are children, it is the count of one of them. Of no children it is \<open>-Infinity\<close>.
\<close>

theorem countMultiLevel_levels:
  "countMultiLevel c =
     (if isMultiLevelColumn c \<and> \<not> getCollapsed c \<and> \<not> getCompressed c
      then js_add (Finite 1) (Math_max (map countMultiLevel (ml_children c)))
      else Finite 1) \<and>
   (\<forall>x \<in> set (ml_children c).
      js_le (countMultiLevel x) (Math_max (map countMultiLevel (ml_children c)))) \<and>
   (ml_children c \<noteq> [] \<longrightarrow>
      Math_max (map countMultiLevel (ml_children c)) \<in> countMultiLevel ` set (ml_children c)) \<and>
   (ml_children c = [] \<longrightarrow> Math_max (map countMultiLevel (ml_children c)) = NegInfinity)"
proof (intro conjI)
  show "countMultiLevel c =
     (if isMultiLevelColumn c \<and> \<not> getCollapsed c \<and> \<not> getCompressed c
      then js_add (Finite 1) (Math_max (map countMultiLevel (ml_children c)))
      else Finite 1)"
    by (cases c) simp
  show "\<forall>x \<in> set (ml_children c).
      js_le (countMultiLevel x) (Math_max (map countMultiLevel (ml_children c)))"
    by (simp add: Math_max_ge)
  show "ml_children c \<noteq> [] \<longrightarrow>
      Math_max (map countMultiLevel (ml_children c)) \<in> countMultiLevel ` set (ml_children c)"
    using Math_max_in [of "map countMultiLevel (ml_children c)"] by simp
  show "ml_children c = [] \<longrightarrow> Math_max (map countMultiLevel (ml_children c)) = NegInfinity"
    by (simp add: Math_max_Nil)
qed

theorem countMultiLevel_levels_witness:
  "countMultiLevel example_tree = Finite 3 \<and>
   ml_children example_tree \<noteq> [] \<and>
   leaf \<in> set (ml_children example_tree) \<and>
   js_le (countMultiLevel leaf) (Math_max (map countMultiLevel (ml_children example_tree))) \<and>
   Math_max (map countMultiLevel (ml_children example_tree)) = Finite 2 \<and>
   countMultiLevel (Column True True False [example_tree]) = Finite 1 \<and>
   countMultiLevel (Column True False True [example_tree]) = Finite 1 \<and>
   ml_children (Column True False False []) = [] \<and>
   countMultiLevel (Column True False False []) = NegInfinity"
  using countMultiLevel_levels [of example_tree]
    countMultiLevel_levels [of "Column True True False [example_tree]"]
    countMultiLevel_levels [of "Column True False True [example_tree]"]
    countMultiLevel_levels [of "Column True False False []"]
  by (simp add: example_tree_def leaf_def Math_max_def js_max2_def)


section \<open>Properties of the statistics cache\<close>
















section \<open>Properties of LineUp.sortBy\<close>

text \<open>
  C9. When \<open>find\<close> locates a column, \<open>sortBy\<close> calls \<open>sortByMe\<close> of that column with the
  given direction (\<open>false\<close> when none is given) and returns \<open>true\<close>; when \<open>find\<close> returns
  \<open>null\<close>, \<open>sortBy\<close> returns \<open>false\<close> and the state is unchanged. Were \<open>find\<close> to answer
  \<open>undefined\<close>, nothing would be sorted and the result would be \<open>true\<close>.
\<close>

theorem sortBy_result:
  "sortBy data_find sortByMe column ascending s =
     (case data_find s column of
        RefObject c \<Rightarrow> (True, sortByMe c (case ascending of None \<Rightarrow> False | Some a \<Rightarrow> a) s)
      | RefNull \<Rightarrow> (False, s)
      | RefUndefined \<Rightarrow> (True, s))"
  by (simp add: sortBy_def split: jsref.splits)


end
